theory Spec2Isabelle
  imports Main "HOL-Library.Word"
begin

section \<open>JavaScript strings\<close>

text \<open>
  A JavaScript string is a sequence of UTF-16 code units. The string methods the server
  and the browser script call are embedded here on lists of 16-bit words; \<open>js\<close> turns an
  ASCII literal of the source into such a list.
\<close>

type_synonym jschar = "16 word"
type_synonym jsstring = "jschar list"

definition js :: "string \<Rightarrow> jsstring" where
  "js s = map of_char s"

definition newline :: jschar where
  "newline = 0x0A"

definition backslash :: jschar where
  "backslash = 0x5C"

text \<open>
  The code units \<open>String.prototype.trim\<close> removes: the WhiteSpace and LineTerminator
  productions of ECMAScript (tab, LF, VT, FF, CR, space, no-break space, the Unicode
  space separators, line and paragraph separator, byte order mark).
\<close>

definition is_ws :: "jschar \<Rightarrow> bool" where
  "is_ws c = (c \<in> set [0x09, 0x0A, 0x0B, 0x0C, 0x0D, 0x20, 0xA0, 0x1680,
                        0x2028, 0x2029, 0x202F, 0x205F, 0x3000, 0xFEFF]
              \<or> (0x2000 \<le> c \<and> c \<le> 0x200A))"

text \<open>\<open>s.trim()\<close>\<close>

definition str_trim :: "jsstring \<Rightarrow> jsstring" where
  "str_trim s = rev (dropWhile is_ws (rev (dropWhile is_ws s)))"

text \<open>\<open>s.startsWith(p)\<close>\<close>

definition startsWith :: "jsstring \<Rightarrow> jsstring \<Rightarrow> bool" where
  "startsWith s p = (take (length p) s = p)"

text \<open>\<open>s.includes(p)\<close>: \<open>p\<close> occurs in \<open>s\<close> at some position.\<close>

fun str_includes :: "jsstring \<Rightarrow> jsstring \<Rightarrow> bool" where
  "str_includes [] p = (p = [])"
| "str_includes (c # cs) p = (startsWith (c # cs) p \<or> str_includes cs p)"

text \<open>
  \<open>s.replace(p, r)\<close> with a string pattern: the first occurrence of \<open>p\<close> only. (The
  replacement the server passes is the empty string, so no \<open>$\<close> pattern is involved.)
\<close>

fun str_replace :: "jsstring \<Rightarrow> jsstring \<Rightarrow> jsstring \<Rightarrow> jsstring" where
  "str_replace [] p r = (if p = [] then r else [])"
| "str_replace (c # cs) p r =
     (if startsWith (c # cs) p then r @ drop (length p) (c # cs)
      else c # str_replace cs p r)"

text \<open>
  \<open>s.split(d)\<close> for a one-unit separator: \<open>cur\<close> holds the units of the piece being
  read, in reverse. The result always has one piece more than \<open>s\<close> has separators.
\<close>

fun split_from :: "jschar \<Rightarrow> jsstring \<Rightarrow> jsstring \<Rightarrow> jsstring list" where
  "split_from d cur [] = [rev cur]"
| "split_from d cur (c # cs) =
     (if c = d then rev cur # split_from d [] cs else split_from d (c # cur) cs)"

definition str_split :: "jsstring \<Rightarrow> jschar \<Rightarrow> jsstring list" where
  "str_split s d = split_from d [] s"

text \<open>\<open>xs.join(d)\<close>\<close>

fun str_join :: "jsstring list \<Rightarrow> jschar \<Rightarrow> jsstring" where
  "str_join [] d = []"
| "str_join [x] d = x"
| "str_join (x # y # ys) d = x @ d # str_join (y # ys) d"

section \<open>The server: parsing the model's answer\<close>

text \<open>The marker token of a search-query line.\<close>

definition marker :: jsstring where
  "marker = js ''SEARCH_QUERY:''"

record post_result =
  responseText :: jsstring
  searchQueries :: "jsstring list"

text \<open>
  The \<open>forEach\<close> over the lines, with the two arrays it pushes to passed along:
  \<open>responseTextLines\<close> and \<open>searchQueries\<close>.
\<close>

fun parse_lines ::
  "jsstring list \<Rightarrow> jsstring list \<Rightarrow> jsstring list \<Rightarrow> jsstring list \<times> jsstring list"
where
  "parse_lines [] responseTextLines queries = (responseTextLines, queries)"
| "parse_lines (line # lines) responseTextLines queries =
     (if startsWith line marker
      then parse_lines lines responseTextLines
             (queries @ [str_trim (str_replace line marker [])])
      else parse_lines lines (responseTextLines @ [line]) queries)"

definition parse_response :: "jsstring \<Rightarrow> post_result" where
  "parse_response fullResponseText =
     (case parse_lines (str_split fullResponseText newline) [] [] of
        (responseTextLines, queries) \<Rightarrow>
          \<lparr>responseText = str_trim (str_join responseTextLines newline),
           searchQueries = queries\<rparr>)"

section \<open>The server: requests, the model, responses\<close>

text \<open>An \<open>Error\<close> object; its \<open>message\<close> may be missing.\<close>

datatype js_error = JsError (message: "jsstring option")

text \<open>
  A value of a request body, as \<open>express.json()\<close> parses it. A number is the bit pattern
  of its IEEE 754 double; an object is the list of its keys and values.
\<close>

datatype json =
    JNull
  | JBool bool
  | JNumber "64 word"
  | JString jsstring
  | JArray "json list"
  | JObject "(jsstring \<times> json) list"

text \<open>A double is \<open>+0\<close> or \<open>-0\<close>; a double is \<open>NaN\<close>.\<close>

definition is_zero :: "64 word \<Rightarrow> bool" where
  "is_zero w = (take_bit 63 w = 0)"

definition is_nan :: "64 word \<Rightarrow> bool" where
  "is_nan w = (drop_bit 52 (take_bit 63 w) = 0x7FF \<and> take_bit 52 w \<noteq> 0)"

text \<open>
  A field of the body is a value, or \<open>undefined\<close> when the body does not have it.
  \<open>!v\<close> holds of \<open>undefined\<close>, \<open>null\<close>, \<open>false\<close>, \<open>0\<close>, \<open>NaN\<close> and the empty
  string, and of nothing else.
\<close>

fun truthy :: "json option \<Rightarrow> bool" where
  "truthy None = False"
| "truthy (Some JNull) = False"
| "truthy (Some (JBool b)) = b"
| "truthy (Some (JNumber w)) = (\<not> is_zero w \<and> \<not> is_nan w)"
| "truthy (Some (JString s)) = (s \<noteq> [])"
| "truthy (Some (JArray xs)) = True"
| "truthy (Some (JObject kvs)) = True"

text \<open>
  The string a template literal makes of a value. A string is itself; an array is its
  elements joined with commas, \<open>null\<close> counting as empty; an object is
  \<open>[object Object]\<close>, unless it has a \<open>toString\<close> property of its own, which is not a
  function, and then the conversion throws a TypeError. The rendering of a double is not
  defined here: \<open>numstr\<close> stands for it.
\<close>

fun to_string :: "(64 word \<Rightarrow> jsstring) \<Rightarrow> json \<Rightarrow> js_error + jsstring"
  and join_elements :: "(64 word \<Rightarrow> jsstring) \<Rightarrow> json list \<Rightarrow> js_error + jsstring"
where
  "to_string numstr JNull = Inr (js ''null'')"
| "to_string numstr (JBool b) = Inr (if b then js ''true'' else js ''false'')"
| "to_string numstr (JNumber w) = Inr (numstr w)"
| "to_string numstr (JString s) = Inr s"
| "to_string numstr (JArray xs) = join_elements numstr xs"
| "to_string numstr (JObject kvs) =
     (if js ''toString'' \<in> set (map fst kvs)
      then Inl (JsError (Some (js ''Cannot convert object to primitive value'')))
      else Inr (js ''[object Object]''))"
| "join_elements numstr [] = Inr []"
| "join_elements numstr (x # xs) =
     (case (if x = JNull then Inr [] else to_string numstr x) of
        Inl e \<Rightarrow> Inl e
      | Inr s \<Rightarrow>
          if xs = [] then Inr s
          else (case join_elements numstr xs of
                  Inl e \<Rightarrow> Inl e
                | Inr r \<Rightarrow> Inr (s @ 0x2C # r)))"

text \<open>
  What \<open>await result.response\<close> gives: nothing, or an object whose \<open>text\<close> property is
  missing or is a method that throws or returns the text, and whose \<open>promptFeedback\<close>
  may carry a \<open>blockReason\<close>.
\<close>

record prompt_feedback =
  blockReason :: "jsstring option"

record model_response =
  response_text :: "(js_error + jsstring) option"
  promptFeedback :: "prompt_feedback option"

text \<open>
  The model: for each prompt, \<open>model.generateContent(prompt)\<close> throws, or resolves.
\<close>

datatype upstream_result = Throws js_error | Resolves "model_response option"

type_synonym upstream = "jsstring \<Rightarrow> upstream_result"

text \<open>
  The call \<open>model.generateContent(prompt)\<close>: what the model does with this prompt, and
  the prompts that went to the model, which is this one.
\<close>

definition generateContent :: "upstream \<Rightarrow> jsstring \<Rightarrow> upstream_result \<times> jsstring list" where
  "generateContent model prompt = (model prompt, [prompt])"

datatype payload =
    PostBody post_result
  | SuggestionsBody "jsstring list"
  | ErrorBody jsstring

record http_response =
  status :: nat
  payload :: payload

text \<open>
  What a handler did: the response it sent and the prompts that went to the model, in
  order. The handler of /generate-post also prints the detail of a caught error.
\<close>

record handled =
  reply :: http_response
  prompts :: "jsstring list"

record post_handled = handled +
  error_details :: "jsstring list"

text \<open>
  A handler answers, or throws outside of any \<open>try\<close>; what becomes of such an error is
  up to Express.
\<close>

datatype 'a outcome = Answered 'a | Threw js_error

subsection \<open>getPromptForStyle\<close>

definition formattingInstruction :: jsstring where
  \<open>formattingInstruction =
     js ''Do not use asterisks for emphasis (like *word*). Only use asterisks for bullet points. After the main response, provide a list of 3 relevant web search queries that would help the user learn more. Each query must be on a new line and prefixed with 'SEARCH_QUERY:'. For example:''
     @ backslash # js ''nSEARCH_QUERY: history of artificial intelligence''\<close>

definition getPromptForStyle :: "jsstring \<Rightarrow> jsstring option \<Rightarrow> jsstring" where
  \<open>getPromptForStyle topic style =
     (if style = Some (js ''Professional'') then
        js ''You are a professional assistant. Respond to the following topic in a formal, structured, and business-appropriate tone. ''
        @ formattingInstruction @ js '' Topic: "'' @ topic @ js ''"''
      else if style = Some (js ''Casual'') then
        js ''You are a friendly and casual AI companion. Respond to the following in a relaxed, conversational, and approachable tone. Use informal language where appropriate. ''
        @ formattingInstruction @ js '' Topic: "'' @ topic @ js ''"''
      else if style = Some (js ''Simple'') then
        js ''You are an expert at simplification. Explain the following topic in simple, clear, and easy-to-understand terms. Avoid jargon and use analogies if it helps. ''
        @ formattingInstruction @ js '' Topic: "'' @ topic @ js ''"''
      else if style = Some (js ''Creative'') then
        js ''You are a creative and witty AI. Respond to the following topic with originality, humor, and a touch of cleverness. Feel free to be imaginative. ''
        @ formattingInstruction @ js '' Topic: "'' @ topic @ js ''"''
      else
        js ''You are a helpful and knowledgeable AI assistant. Provide a detailed and informative answer for the following question or topic. ''
        @ formattingInstruction @ js '' Topic: "'' @ topic @ js ''"'')\<close>


text \<open>
  The call \<open>getPromptForStyle(topic, style)\<close> on the values of the body. The template
  literal converts the topic to a string, which may throw. The \<open>switch\<close> compares the
  style with \<open>===\<close>, so a style that is not a string takes the default case, as an
  absent one does.
\<close>

definition style_case :: "json option \<Rightarrow> jsstring option" where
  "style_case style = (case style of Some (JString s) \<Rightarrow> Some s | _ \<Rightarrow> None)"

definition prompt_for ::
  "(64 word \<Rightarrow> jsstring) \<Rightarrow> json \<Rightarrow> json option \<Rightarrow> js_error + jsstring"
where
  "prompt_for numstr topic style =
     (case to_string numstr topic of
        Inl e \<Rightarrow> Inl e
      | Inr t \<Rightarrow> Inr (getPromptForStyle t (style_case style)))"

subsection \<open>POST /generate-post\<close>

text \<open>
  The message of the error thrown when \<open>!response || !response.text\<close>;
  \<open>response?.promptFeedback?.blockReason\<close> is read first.
\<close>

definition block_reason :: "model_response option \<Rightarrow> jsstring option" where
  "block_reason response =
     (case response of
        None \<Rightarrow> None
      | Some r \<Rightarrow> (case promptFeedback r of None \<Rightarrow> None | Some f \<Rightarrow> blockReason f))"

definition errorMessage :: "model_response option \<Rightarrow> jsstring" where
  \<open>errorMessage response =
     (case block_reason response of
        None \<Rightarrow> js ''The AI model returned an empty or invalid response.''
      | Some reason \<Rightarrow>
          if reason \<noteq> []
          then js ''Request was blocked by the AI's safety filters. Reason: '' @ reason
               @ js ''. Please try a different topic.''
          else js ''The AI model returned an empty or invalid response.'')\<close>

text \<open>
  The body of the \<open>try\<close>: the error it throws or the result it sends, and the prompts
  that went to the model.
\<close>

definition generate ::
  "(64 word \<Rightarrow> jsstring) \<Rightarrow> upstream \<Rightarrow> json \<Rightarrow> json option
     \<Rightarrow> (js_error + post_result) \<times> jsstring list"
where
  "generate numstr model topic style =
     (case prompt_for numstr topic style of
        Inl e \<Rightarrow> (Inl e, [])
      | Inr prompt \<Rightarrow>
          (case generateContent model prompt of
             (result, sent) \<Rightarrow>
               (case result of
                  Throws e \<Rightarrow> (Inl e, sent)
                | Resolves response \<Rightarrow>
                    (case response of
                       None \<Rightarrow> (Inl (JsError (Some (errorMessage response))), sent)
                     | Some r \<Rightarrow>
                         (case response_text r of
                            None \<Rightarrow> (Inl (JsError (Some (errorMessage response))), sent)
                          | Some (Inl e) \<Rightarrow> (Inl e, sent)
                          | Some (Inr fullResponseText) \<Rightarrow>
                              (Inr (parse_response fullResponseText), sent))))))"

text \<open>The \<open>catch\<close>: what is printed as the error detail, and the response.\<close>

definition error_detail :: "js_error \<Rightarrow> jsstring" where
  "error_detail e =
     (case message e of
        None \<Rightarrow> js ''No specific message available.''
      | Some m \<Rightarrow> if m \<noteq> [] then m else js ''No specific message available.'')"

definition quota_error :: "js_error \<Rightarrow> bool" where
  "quota_error e =
     (case message e of
        None \<Rightarrow> False
      | Some m \<Rightarrow> m \<noteq> [] \<and> (str_includes m (js ''429'') \<or> str_includes m (js ''quota'')))"

definition error_response :: "js_error \<Rightarrow> http_response" where
  "error_response e =
     (if quota_error e
      then \<lparr>status = 429,
            payload = ErrorBody (js ''The daily API quota has been reached. Please try again tomorrow.'')\<rparr>
      else \<lparr>status = 500,
            payload = ErrorBody (js ''An unexpected server error occurred. Please check the server logs.'')\<rparr>)"

text \<open>
  The two fields the handler takes from the JSON body of the request; a field the body
  lacks is \<open>undefined\<close>.
\<close>

record post_body =
  topic :: "json option"
  style :: "json option"

definition generate_post :: "(64 word \<Rightarrow> jsstring) \<Rightarrow> upstream \<Rightarrow> post_body \<Rightarrow> post_handled" where
  "generate_post numstr model body =
     (case topic body of
        None \<Rightarrow>
          \<lparr>reply = \<lparr>status = 400, payload = ErrorBody (js ''Topic is required'')\<rparr>,
           prompts = [], error_details = []\<rparr>
      | Some t \<Rightarrow>
          if \<not> truthy (Some t) then
            \<lparr>reply = \<lparr>status = 400, payload = ErrorBody (js ''Topic is required'')\<rparr>,
             prompts = [], error_details = []\<rparr>
          else
            (case generate numstr model t (style body) of
               (Inr result, sent) \<Rightarrow>
                 \<lparr>reply = \<lparr>status = 200, payload = PostBody result\<rparr>,
                  prompts = sent, error_details = []\<rparr>
             | (Inl e, sent) \<Rightarrow>
                 \<lparr>reply = error_response e, prompts = sent,
                  error_details = [error_detail e]\<rparr>))"

subsection \<open>POST /generate-suggestions\<close>

definition suggestion_prompt :: "jsstring \<Rightarrow> jsstring" where
  \<open>suggestion_prompt q =
     js ''Based on the user's partial search query "'' @ q
     @ js ''", generate a list of 4 relevant and diverse search topic suggestions to help them complete their thought. Each suggestion should be on a new line. Do not include numbering or bullet points.''\<close>

text \<open>
  The body of the \<open>try\<close>: \<open>None\<close> when something is thrown (by the call, or by
  \<open>response.text()\<close>, also when there is no response or no such method), else the
  suggestions; and the prompts that went to the model.
\<close>

definition suggest :: "upstream \<Rightarrow> jsstring \<Rightarrow> jsstring list option \<times> jsstring list" where
  "suggest model q =
     (case generateContent model (suggestion_prompt q) of
        (result, sent) \<Rightarrow>
          (case result of
             Throws e \<Rightarrow> (None, sent)
           | Resolves response \<Rightarrow>
               (case response of
                  None \<Rightarrow> (None, sent)
                | Some r \<Rightarrow>
                    (case response_text r of
                       None \<Rightarrow> (None, sent)
                     | Some (Inl e) \<Rightarrow> (None, sent)
                     | Some (Inr answer) \<Rightarrow>
                         (Some (filter (\<lambda>s. str_trim s \<noteq> []) (str_split answer newline)),
                          sent)))))"

record suggest_body =
  query :: "json option"

text \<open>
  The guard \<open>!query || query.trim().length < 3\<close> stands before the \<open>try\<close>: for a query
  that is neither falsy nor a string, \<open>query.trim\<close> is no function and the call throws a
  TypeError that nothing catches.
\<close>

definition generate_suggestions :: "upstream \<Rightarrow> suggest_body \<Rightarrow> handled outcome" where
  "generate_suggestions model body =
     (case query body of
        None \<Rightarrow>
          Answered \<lparr>reply = \<lparr>status = 200, payload = SuggestionsBody []\<rparr>, prompts = []\<rparr>
      | Some v \<Rightarrow>
          if \<not> truthy (Some v) then
            Answered \<lparr>reply = \<lparr>status = 200, payload = SuggestionsBody []\<rparr>, prompts = []\<rparr>
          else
            (case v of
               JString q \<Rightarrow>
                 if length (str_trim q) < 3 then
                   Answered \<lparr>reply = \<lparr>status = 200, payload = SuggestionsBody []\<rparr>,
                             prompts = []\<rparr>
                 else
                   (case suggest model q of
                      (Some suggestions, sent) \<Rightarrow>
                        Answered \<lparr>reply = \<lparr>status = 200, payload = SuggestionsBody suggestions\<rparr>,
                                  prompts = sent\<rparr>
                    | (None, sent) \<Rightarrow>
                        Answered \<lparr>reply = \<lparr>status = 200, payload = SuggestionsBody []\<rparr>,
                                  prompts = sent\<rparr>)
             | _ \<Rightarrow> Threw (JsError (Some (js ''query.trim is not a function'')))))"

subsection \<open>The CORS origin check\<close>

definition allowedOrigins :: "jsstring list" where
  "allowedOrigins =
     [js ''https://mindgpt-ai.vercel.app'', js ''http://localhost:5500'',
      js ''http://127.0.0.1:5500'']"

text \<open>
  \<open>corsOptions.origin\<close>: the callback gets \<open>(null, true)\<close>, or the error
  \<open>Not allowed by CORS\<close>. A request without an Origin header has \<open>origin\<close> undefined.
\<close>

definition cors_origin :: "jsstring option \<Rightarrow> js_error + bool" where
  "cors_origin origin =
     (case origin of
        None \<Rightarrow> Inr True
      | Some v \<Rightarrow>
          if v = [] \<or> v \<in> set allowedOrigins then Inr True
          else Inl (JsError (Some (js ''Not allowed by CORS''))))"

subsection \<open>The rate limiter in front of both routes\<close>

text \<open>
  The source configures the limiter: \<open>windowMs: 5 * 60 * 1000\<close>, \<open>max: 15\<close> and the
  \<open>message\<close> sent on rejection.
\<close>

definition windowMs :: nat where
  "windowMs = 5 * 60 * 1000"

definition max_requests :: nat where
  "max_requests = 15"

definition limiter_message :: payload where
  "limiter_message =
     ErrorBody (js ''Too many requests from this IP, please try again after 5 minutes.'')"

text \<open>
  Modelled from the spec: the RateWindow of a client identifier, a counter and the time
  its window started, in milliseconds. (The limiter is the package express-rate-limit; the
  sources hold only its configuration, above.)
\<close>

record rate_window =
  count :: nat
  window_start :: nat

type_synonym limiter_state = "jsstring \<Rightarrow> rate_window option"

text \<open>
  Modelled from the spec: the limiter, which is not part of the sources. The window of a
  client is reset when it has elapsed; a request is admitted and counted while the count
  is below the maximum, and rejected, not queued, otherwise. The result is whether the
  request is admitted, and the new counters.
\<close>

definition apiLimiter :: "limiter_state \<Rightarrow> jsstring \<Rightarrow> nat \<Rightarrow> bool \<times> limiter_state" where
  "apiLimiter st ip now =
     (case st ip of
        None \<Rightarrow> (True, st(ip \<mapsto> \<lparr>count = 1, window_start = now\<rparr>))
      | Some w \<Rightarrow>
          if window_start w + windowMs \<le> now
          then (True, st(ip \<mapsto> \<lparr>count = 1, window_start = now\<rparr>))
          else if count w < max_requests
          then (True, st(ip \<mapsto> w\<lparr>count := count w + 1\<rparr>))
          else (False, st))"

text \<open>
  Modelled from the spec: the response to a rejected request, the "too many requests"
  status with the structured error payload, which is the \<open>message\<close> of the source.
\<close>

definition too_many_requests :: http_response where
  "too_many_requests = \<lparr>status = 429, payload = limiter_message\<rparr>"

text \<open>The decisions for the requests of one client at the given times, in order.\<close>

fun limiter_run :: "limiter_state \<Rightarrow> jsstring \<Rightarrow> nat list \<Rightarrow> bool list \<times> limiter_state" where
  "limiter_run st ip [] = ([], st)"
| "limiter_run st ip (t # ts) =
     (case apiLimiter st ip t of
        (admitted, st') \<Rightarrow>
          (case limiter_run st' ip ts of (rest, st'') \<Rightarrow> (admitted # rest, st'')))"

text \<open>
  \<open>app.post(path, apiLimiter, handler)\<close>: the handler runs only for a request the limiter
  admits.
\<close>

definition post_generate_post ::
  "limiter_state \<Rightarrow> jsstring \<Rightarrow> nat \<Rightarrow> (64 word \<Rightarrow> jsstring) \<Rightarrow> upstream \<Rightarrow> post_body
     \<Rightarrow> post_handled \<times> limiter_state"
where
  "post_generate_post st ip now numstr model body =
     (case apiLimiter st ip now of
        (admitted, st') \<Rightarrow>
          if admitted then (generate_post numstr model body, st')
          else (\<lparr>reply = too_many_requests, prompts = [], error_details = []\<rparr>, st'))"

definition post_generate_suggestions ::
  "limiter_state \<Rightarrow> jsstring \<Rightarrow> nat \<Rightarrow> upstream \<Rightarrow> suggest_body
     \<Rightarrow> handled outcome \<times> limiter_state"
where
  "post_generate_suggestions st ip now model body =
     (case apiLimiter st ip now of
        (admitted, st') \<Rightarrow>
          if admitted then (generate_suggestions model body, st')
          else (Answered \<lparr>reply = too_many_requests, prompts = []\<rparr>, st'))"

subsection \<open>The application: the CORS middleware before the routes\<close>

text \<open>
  Modelled from the spec: the middleware of the package cors, which is not part of the
  sources; \<open>app.use(cors(corsOptions))\<close> mounts it before the routes. It gives the
  Origin of the request to \<open>corsOptions.origin\<close>. A request that the check refuses is
  rejected there, at the transport layer, with the error of the check, and nothing after
  the middleware runs, neither the rate limiter nor a handler; any other request goes on
  to its route.
\<close>

datatype 'a served = Refused js_error | Routed 'a

definition cors ::
  "jsstring option \<Rightarrow> (limiter_state \<Rightarrow> 'a \<times> limiter_state) \<Rightarrow> limiter_state
     \<Rightarrow> 'a served \<times> limiter_state"
where
  "cors origin route st =
     (case cors_origin origin of
        Inl e \<Rightarrow> (Refused e, st)
      | Inr allowed \<Rightarrow> (case route st of (r, st') \<Rightarrow> (Routed r, st')))"

text \<open>The two requests the application serves, from the Origin header on.\<close>

definition app_generate_post ::
  "jsstring option \<Rightarrow> limiter_state \<Rightarrow> jsstring \<Rightarrow> nat \<Rightarrow> (64 word \<Rightarrow> jsstring) \<Rightarrow> upstream
     \<Rightarrow> post_body \<Rightarrow> post_handled served \<times> limiter_state"
where
  "app_generate_post origin st ip now numstr model body =
     cors origin (\<lambda>s. post_generate_post s ip now numstr model body) st"

definition app_generate_suggestions ::
  "jsstring option \<Rightarrow> limiter_state \<Rightarrow> jsstring \<Rightarrow> nat \<Rightarrow> upstream \<Rightarrow> suggest_body
     \<Rightarrow> handled outcome served \<times> limiter_state"
where
  "app_generate_suggestions origin st ip now model body =
     cors origin (\<lambda>s. post_generate_suggestions s ip now model body) st"

section \<open>The browser script: generating and regenerating\<close>

text \<open>
  The state of the page that \<open>handleGeneration\<close> reads and writes: the \<open>history\<close>
  array, \<open>lastSubmission\<close>, the values of the two form controls, the entry of
  localStorage that \<open>saveHistory\<close> writes, and the text shown. (The display styles and
  the loading state of the button, which \<open>finally\<close> restores, are left out, and so is
  the rendering of the history list.)
\<close>

record history_entry =
  entry_id :: nat
  entry_topic :: jsstring
  entry_tone :: jsstring
  entry_responseText :: jsstring
  entry_searchQueries :: "jsstring list"

record submission =
  last_topic :: jsstring
  last_tone :: jsstring

record page =
  history :: "history_entry list"
  lastSubmission :: submission
  topicTextarea :: jsstring
  toneSelect :: jsstring
  storedHistory :: "history_entry list option"
  userPromptText :: jsstring
  postOutput :: jsstring
  searchLinks :: "jsstring list"









section \<open>Facts about the string operations\<close>

lemma startsWith_append: "startsWith (p @ s) p"
  by (simp add: startsWith_def)

lemma startsWith_iff: "startsWith s p \<longleftrightarrow> (\<exists>r. s = p @ r)"
  unfolding startsWith_def by (metis append_eq_conv_conj)

lemma str_replace_prefix:
  "startsWith s p \<Longrightarrow> str_replace s p r = r @ drop (length p) s"
  by (cases s) (auto simp: startsWith_def)

lemma split_from_nonempty: "split_from d cur s \<noteq> []"
  by (induction s arbitrary: cur) simp_all

lemma split_from_join:
  "str_join (split_from d cur s) d = rev cur @ s"
proof (induction s arbitrary: cur)
  case Nil
  show ?case by simp
next
  case (Cons c cs)
  obtain l ls where shape: "split_from d [] cs = l # ls"
    using split_from_nonempty [of d "[]" cs] by (cases "split_from d [] cs") simp_all
  show ?case
  proof (cases "c = d")
    case True
    have "str_join (rev cur # split_from d [] cs) d = rev cur @ d # str_join (split_from d [] cs) d"
      by (simp add: shape)
    with True Cons.IH [of "[]"] show ?thesis by simp
  next
    case False
    with Cons.IH [of "c # cur"] show ?thesis by simp
  qed
qed

lemma str_join_split: "str_join (str_split s d) d = s"
  by (simp add: str_split_def split_from_join)

lemma split_from_no_separator:
  "d \<notin> set cur \<Longrightarrow> l \<in> set (split_from d cur s) \<Longrightarrow> d \<notin> set l"
proof (induction s arbitrary: cur)
  case Nil
  then show ?case by simp
next
  case (Cons c cs)
  show ?case
  proof (cases "c = d")
    case True
    with Cons.prems have "l = rev cur \<or> l \<in> set (split_from d [] cs)"
      by simp
    then show ?thesis
      using Cons.prems(1) Cons.IH [of "[]"] by auto
  next
    case False
    with Cons.prems have "l \<in> set (split_from d (c # cur) cs)" "d \<notin> set (c # cur)"
      by auto
    then show ?thesis
      using Cons.IH [of "c # cur"] by blast
  qed
qed

lemma str_split_no_separator: "l \<in> set (str_split s d) \<Longrightarrow> d \<notin> set l"
  unfolding str_split_def using split_from_no_separator [of d "[]" l s] by simp

lemma parse_lines_filter:
  "parse_lines ls rs qs =
     (rs @ filter (\<lambda>l. \<not> startsWith l marker) ls,
      qs @ map (\<lambda>l. str_trim (drop (length marker) l)) (filter (\<lambda>l. startsWith l marker) ls))"
  by (induction ls arbitrary: rs qs) (simp_all add: str_replace_prefix)

lemma startsWith_includes: "startsWith s p \<Longrightarrow> str_includes s p"
  by (cases s) (auto simp: startsWith_def)

lemma str_includes_append: "str_includes (a @ p @ b) p"
proof (induction a)
  case Nil
  show ?case using startsWith_includes [OF startsWith_append [of p b]] by simp
next
  case (Cons c a)
  then show ?case by simp
qed

lemma formatting_marker: "str_includes formattingInstruction marker"
  by (simp add: formattingInstruction_def marker_def js_def startsWith_def backslash_def)

lemma prompt_shape:
  \<open>\<exists>persona. getPromptForStyle tp sty =
     persona @ formattingInstruction @ js '' Topic: "'' @ tp @ js ''"''\<close>
  apply (simp only: getPromptForStyle_def split: if_split)
  apply (intro conjI impI exI)
      apply (rule refl)+
  done

lemma prompt_includes_topic: "str_includes (getPromptForStyle tp sty) tp"
proof -
  obtain persona where p: \<open>getPromptForStyle tp sty =
      persona @ formattingInstruction @ js '' Topic: "'' @ tp @ js ''"''\<close>
    using prompt_shape by blast
  show ?thesis
    unfolding p
    using str_includes_append [of \<open>persona @ formattingInstruction @ js '' Topic: "''\<close> tp \<open>js ''"''\<close>]
    by simp
qed

lemma prompt_includes_directive:
  "str_includes (getPromptForStyle tp sty) formattingInstruction"
proof -
  obtain persona where p: \<open>getPromptForStyle tp sty =
      persona @ formattingInstruction @ js '' Topic: "'' @ tp @ js ''"''\<close>
    using prompt_shape by blast
  show ?thesis
    unfolding p using str_includes_append [of persona formattingInstruction] by simp
qed

lemma error_response_cases:
  "error_response e =
     (if quota_error e
      then \<lparr>status = 429, payload = ErrorBody (js ''The daily API quota has been reached. Please try again tomorrow.'')\<rparr>
      else \<lparr>status = 500, payload = ErrorBody (js ''An unexpected server error occurred. Please check the server logs.'')\<rparr>)"
  by (simp add: error_response_def)

lemma quota_error_iff:
  "quota_error e \<longleftrightarrow>
     (\<exists>m. message e = Some m \<and> (str_includes m (js ''429'') \<or> str_includes m (js ''quota'')))"
proof -
  have "\<not> str_includes [] (js ''429'')" "\<not> str_includes [] (js ''quota'')"
    by (simp_all add: js_def)
  then show ?thesis
    by (cases "message e") (auto simp: quota_error_def)
qed

lemma map_upt_Suc_shift: "map f [0..<Suc n] = f 0 # map (\<lambda>i. f (Suc i)) [0..<n]"
  by (simp add: map_upt_Suc del: upt_Suc)

lemma limiter_run_in_window:
  "st ip = Some w \<Longrightarrow> \<forall>t\<in>set ts. t < window_start w + windowMs \<Longrightarrow>
   fst (limiter_run st ip ts) = map (\<lambda>i. count w + i < max_requests) [0..<length ts]"
proof (induction ts arbitrary: st w)
  case Nil
  then show ?case by simp
next
  case (Cons t ts)
  have inw: "\<not> window_start w + windowMs \<le> t" and rest: "\<forall>t\<in>set ts. t < window_start w + windowMs"
    using Cons.prems(2) by auto
  show ?case
  proof (cases "count w < max_requests")
    case True
    let ?w' = "w\<lparr>count := count w + 1\<rparr>"
    let ?st' = "st(ip \<mapsto> ?w')"
    have step: "apiLimiter st ip t = (True, ?st')"
      using Cons.prems(1) inw True by (simp add: apiLimiter_def)
    obtain r s2 where run: "limiter_run ?st' ip ts = (r, s2)"
      by (cases "limiter_run ?st' ip ts")
    have "fst (limiter_run ?st' ip ts) = map (\<lambda>i. count ?w' + i < max_requests) [0..<length ts]"
      by (rule Cons.IH) (use rest in simp_all)
    then show ?thesis
      using step True run
      by (simp add: map_upt_Suc_shift del: upt_Suc)
  next
    case False
    have step: "apiLimiter st ip t = (False, st)"
      using Cons.prems(1) inw False by (simp add: apiLimiter_def)
    obtain r s2 where run: "limiter_run st ip ts = (r, s2)"
      by (cases "limiter_run st ip ts")
    have "fst (limiter_run st ip ts) = map (\<lambda>i. count w + i < max_requests) [0..<length ts]"
      by (rule Cons.IH) (use Cons.prems(1) rest in simp_all)
    then show ?thesis
      using step False run
      by (simp add: map_upt_Suc_shift del: upt_Suc)
  qed
qed

lemma apiLimiter_new_window:
  "st ip = None \<or> (\<exists>w. st ip = Some w \<and> window_start w + windowMs \<le> now) \<Longrightarrow>
   apiLimiter st ip now = (True, st(ip \<mapsto> \<lparr>count = 1, window_start = now\<rparr>))"
  by (auto simp: apiLimiter_def)

lemma limiter_run_new_window:
  assumes "st ip = None \<or> (\<exists>w. st ip = Some w \<and> window_start w + windowMs \<le> t0)"
    and "\<forall>t\<in>set ts. t < t0 + windowMs"
  shows "fst (limiter_run st ip (t0 # ts)) = map (\<lambda>i. i < max_requests) [0..<Suc (length ts)]"
proof -
  let ?w = "\<lparr>count = 1, window_start = t0\<rparr>"
  let ?st' = "st(ip \<mapsto> ?w)"
  have step: "apiLimiter st ip t0 = (True, ?st')"
    using assms(1) by (rule apiLimiter_new_window)
  obtain r s2 where run: "limiter_run ?st' ip ts = (r, s2)"
    by (cases "limiter_run ?st' ip ts")
  have "fst (limiter_run ?st' ip ts) = map (\<lambda>i. count ?w + i < max_requests) [0..<length ts]"
    by (rule limiter_run_in_window) (use assms(2) in simp_all)
  then show ?thesis
    using step run by (simp add: map_upt_Suc_shift max_requests_def del: upt_Suc)
qed

lemma apiLimiter_count_bound:
  "\<forall>k w. st k = Some w \<longrightarrow> count w \<le> max_requests \<Longrightarrow>
   snd (apiLimiter st ip now) ip' = Some w' \<Longrightarrow> count w' \<le> max_requests"
  by (auto simp: apiLimiter_def max_requests_def split: option.splits if_splits)





section \<open>Facts about the handlers and the routes\<close>

lemma prompt_for_string:
  "prompt_for numstr (JString t) sty = Inr (getPromptForStyle t (style_case sty))"
  by (simp add: prompt_for_def)

lemma generate_Inr_iff:
  "generate numstr model v sty = (Inr result, sent) \<longleftrightarrow>
     (\<exists>p r answer. prompt_for numstr v sty = Inr p \<and> model p = Resolves (Some r)
        \<and> response_text r = Some (Inr answer) \<and> result = parse_response answer \<and> sent = [p])"
  by (auto simp: generate_def generateContent_def
      split: sum.splits upstream_result.splits option.splits)

lemma generate_sent:
  "snd (generate numstr model v sty) =
     (case prompt_for numstr v sty of Inl e \<Rightarrow> [] | Inr p \<Rightarrow> [p])"
  by (simp add: generate_def generateContent_def
      split: sum.splits upstream_result.splits option.splits)

lemma generate_no_response:
  "generate numstr (\<lambda>p. Resolves None) (JString t) sty =
     (Inl (JsError (Some (js ''The AI model returned an empty or invalid response.''))),
      [getPromptForStyle t (style_case sty)])"
  by (simp add: generate_def prompt_for_string generateContent_def errorMessage_def
      block_reason_def)

lemma generate_no_text:
  "response_text r = None \<Longrightarrow>
   generate numstr (\<lambda>p. Resolves (Some r)) (JString t) sty =
     (Inl (JsError (Some (errorMessage (Some r)))), [getPromptForStyle t (style_case sty)])"
  by (simp add: generate_def prompt_for_string generateContent_def)

lemma generate_throws:
  "prompt_for numstr v sty = Inr p \<Longrightarrow> model p = Throws e \<Longrightarrow>
   generate numstr model v sty = (Inl e, [p])"
  by (simp add: generate_def generateContent_def)

lemma generate_post_falsy:
  "\<not> truthy (topic body) \<Longrightarrow>
   generate_post numstr model body =
     \<lparr>reply = \<lparr>status = 400, payload = ErrorBody (js ''Topic is required'')\<rparr>,
      prompts = [], error_details = []\<rparr>"
  by (cases "topic body") (simp_all add: generate_post_def)

lemma generate_post_ok:
  "topic body = Some t \<Longrightarrow> truthy (Some t) \<Longrightarrow>
   generate numstr model t (style body) = (Inr result, sent) \<Longrightarrow>
   generate_post numstr model body =
     \<lparr>reply = \<lparr>status = 200, payload = PostBody result\<rparr>, prompts = sent, error_details = []\<rparr>"
  by (simp add: generate_post_def)

lemma generate_post_error:
  "topic body = Some t \<Longrightarrow> truthy (Some t) \<Longrightarrow>
   generate numstr model t (style body) = (Inl e, sent) \<Longrightarrow>
   generate_post numstr model body =
     \<lparr>reply = error_response e, prompts = sent, error_details = [error_detail e]\<rparr>"
  by (simp add: generate_post_def)

lemma status_error_response: "status (error_response e) \<noteq> 400"
  by (simp add: error_response_def)

lemma generate_post_400_iff:
  "status (reply (generate_post numstr model body)) = 400 \<longleftrightarrow> \<not> truthy (topic body)"
proof (cases "truthy (topic body)")
  case False
  then show ?thesis by (simp add: generate_post_falsy)
next
  case True
  then obtain t where t: "topic body = Some t" "truthy (Some t)"
    by (cases "topic body") auto
  obtain res sent where g: "generate numstr model t (style body) = (res, sent)"
    by (cases "generate numstr model t (style body)")
  show ?thesis
    using True t g
    by (cases res) (simp_all add: generate_post_error generate_post_ok status_error_response)
qed

lemma falsy_values:
  "\<not> truthy v \<longleftrightarrow>
     v \<in> {None, Some JNull, Some (JBool False), Some (JString [])}
     \<or> (\<exists>w. v = Some (JNumber w) \<and> (is_zero w \<or> is_nan w))"
proof (cases v)
  case None
  then show ?thesis by simp
next
  case (Some x)
  then show ?thesis by (cases x) auto
qed

lemma post_generate_post_admitted:
  "fst (apiLimiter st ip now) \<Longrightarrow>
   fst (post_generate_post st ip now numstr model body) = generate_post numstr model body"
  by (cases "apiLimiter st ip now") (simp add: post_generate_post_def)

lemma post_generate_post_rejected:
  "\<not> fst (apiLimiter st ip now) \<Longrightarrow>
   post_generate_post st ip now numstr model body =
     (\<lparr>reply = \<lparr>status = 429,
                payload = ErrorBody (js ''Too many requests from this IP, please try again after 5 minutes.'')\<rparr>,
       prompts = [], error_details = []\<rparr>, st)"
  by (auto simp: post_generate_post_def too_many_requests_def limiter_message_def apiLimiter_def
      split: prod.splits option.splits if_splits)

lemma post_generate_suggestions_admitted:
  "fst (apiLimiter st ip now) \<Longrightarrow>
   fst (post_generate_suggestions st ip now model body) = generate_suggestions model body"
  by (cases "apiLimiter st ip now") (simp add: post_generate_suggestions_def)

lemma post_generate_suggestions_rejected:
  "\<not> fst (apiLimiter st ip now) \<Longrightarrow>
   post_generate_suggestions st ip now model body =
     (Answered \<lparr>reply = \<lparr>status = 429,
                payload = ErrorBody (js ''Too many requests from this IP, please try again after 5 minutes.'')\<rparr>,
       prompts = []\<rparr>, st)"
  by (auto simp: post_generate_suggestions_def too_many_requests_def limiter_message_def
      apiLimiter_def split: prod.splits option.splits if_splits)

lemma suggest_result:
  "suggest model q =
     (case model (suggestion_prompt q) of
        Throws e \<Rightarrow> None
      | Resolves response \<Rightarrow>
          (case response of
             None \<Rightarrow> None
           | Some r \<Rightarrow>
               (case response_text r of
                  None \<Rightarrow> None
                | Some (Inl e) \<Rightarrow> None
                | Some (Inr answer) \<Rightarrow>
                    Some (filter (\<lambda>s. str_trim s \<noteq> []) (str_split answer newline)))),
      [suggestion_prompt q])"
  by (simp add: suggest_def generateContent_def
      split: upstream_result.splits option.splits sum.splits)

lemma suggest_Some_iff:
  "fst (suggest model q) = Some xs \<longleftrightarrow>
     (\<exists>r answer. model (suggestion_prompt q) = Resolves (Some r)
        \<and> response_text r = Some (Inr answer)
        \<and> xs = filter (\<lambda>s. str_trim s \<noteq> []) (str_split answer newline))"
  by (auto simp: suggest_result split: upstream_result.splits option.splits sum.splits)

lemma generate_suggestions_string:
  "query body = Some (JString q) \<Longrightarrow>
   generate_suggestions model body =
     Answered
       \<lparr>reply = \<lparr>status = 200,
                 payload = SuggestionsBody
                   (if length (str_trim q) < 3 then []
                    else (case fst (suggest model q) of None \<Rightarrow> [] | Some xs \<Rightarrow> xs))\<rparr>,
        prompts = (if length (str_trim q) < 3 then [] else [suggestion_prompt q])\<rparr>"
  by (cases "fst (suggest model q)")
    (auto simp: generate_suggestions_def suggest_result str_trim_def split: prod.splits)

lemma generate_suggestions_falsy:
  "\<not> truthy (query body) \<Longrightarrow>
   generate_suggestions model body =
     Answered \<lparr>reply = \<lparr>status = 200, payload = SuggestionsBody []\<rparr>, prompts = []\<rparr>"
  by (cases "query body") (auto simp: generate_suggestions_def)

lemma generate_suggestions_throws:
  "query body = Some v \<Longrightarrow> truthy (Some v) \<Longrightarrow> \<not> (\<exists>q. v = JString q) \<Longrightarrow>
   generate_suggestions model body = Threw (JsError (Some (js ''query.trim is not a function'')))"
  by (cases v) (auto simp: generate_suggestions_def)

lemma cors_origin_cases:
  "cors_origin origin =
     (if origin = None \<or> origin = Some [] \<or> origin \<in> set (map Some allowedOrigins)
      then Inr True
      else Inl (JsError (Some (js ''Not allowed by CORS''))))"
  by (cases origin) (auto simp: cors_origin_def)

section \<open>Claims\<close>

text \<open>
  C1. For every raw text of the model, the parser of /generate-post yields one search
  query for each line that begins with the marker \<open>SEARCH_QUERY:\<close>, in the order of
  those lines, each being the line without the marker, trimmed; so the number of queries
  is the number of marker lines, whatever it is. The response text is the other lines,
  in their order, joined with newlines again and trimmed.
\<close>

theorem parse_response_marker_lines:
  "searchQueries (parse_response text) =
     map (\<lambda>l. str_trim (drop (length marker) l))
       (filter (\<lambda>l. startsWith l marker) (str_split text newline))
   \<and> length (searchQueries (parse_response text)) =
       length (filter (\<lambda>l. startsWith l marker) (str_split text newline))
   \<and> responseText (parse_response text) =
       str_trim (str_join (filter (\<lambda>l. \<not> startsWith l marker) (str_split text newline)) newline)"
  by (simp add: parse_response_def parse_lines_filter)

text \<open>
  C5. The prompt builder is a function of the topic and the style alone. For every style
  other than Professional, Casual, Simple and Creative (an absent style too) it returns
  the prompt of the default persona. For every topic and style the prompt is a persona
  text, then the fixed formatting directive, then the topic, verbatim, between double
  quotes; and the directive holds the instruction about the \<open>SEARCH_QUERY:\<close> marker.
\<close>

theorem getPromptForStyle_fallback:
  \<open>(sty \<notin> {Some (js ''Professional''), Some (js ''Casual''), Some (js ''Simple''), Some (js ''Creative'')}
      \<longrightarrow> getPromptForStyle tp sty =
            js ''You are a helpful and knowledgeable AI assistant. Provide a detailed and informative answer for the following question or topic. ''
            @ formattingInstruction @ js '' Topic: "'' @ tp @ js ''"'')
   \<and> (\<exists>persona. getPromptForStyle tp sty =
          persona @ formattingInstruction @ js '' Topic: "'' @ tp @ js ''"'')
   \<and> str_includes (getPromptForStyle tp sty) tp
   \<and> str_includes (getPromptForStyle tp sty) formattingInstruction
   \<and> str_includes formattingInstruction (js ''SEARCH_QUERY:'')\<close>
proof -
  have \<open>sty \<notin> {Some (js ''Professional''), Some (js ''Casual''), Some (js ''Simple''), Some (js ''Creative'')}
      \<longrightarrow> getPromptForStyle tp sty =
            js ''You are a helpful and knowledgeable AI assistant. Provide a detailed and informative answer for the following question or topic. ''
            @ formattingInstruction @ js '' Topic: "'' @ tp @ js ''"''\<close>
    unfolding getPromptForStyle_def by simp
  then show ?thesis
    using prompt_shape [of tp sty] prompt_includes_topic [of tp sty]
      prompt_includes_directive [of tp sty] formatting_marker
    unfolding marker_def by blast
qed

theorem getPromptForStyle_fallback_witness:
  \<open>getPromptForStyle (js ''history of AI'') (Some (js ''Detailed Answer'')) =
     js ''You are a helpful and knowledgeable AI assistant. Provide a detailed and informative answer for the following question or topic. ''
     @ formattingInstruction @ js '' Topic: "history of AI"''\<close>
  using getPromptForStyle_fallback [of \<open>Some (js ''Detailed Answer'')\<close> \<open>js ''history of AI''\<close>]
  by (simp add: js_def)

text \<open>
  C2. With the window of 5 minutes (300000 ms) and the maximum of 15 of the source: when a
  client has no window, or its window has elapsed, its request opens a window, and of the
  requests it makes before that window ends exactly the first 15 are admitted, the 16th
  and every later one rejected; so a request after the window has elapsed is admitted
  again. A rejected request gets status 429 with the configured error payload, no prompt
  goes to the model, and the counters stay as they were. No counter ever exceeds 15.
\<close>

theorem limiter_fifteen_per_window:
  "windowMs = 300000
   \<and> ((st ip = None \<or> (\<exists>w. st ip = Some w \<and> window_start w + 300000 \<le> t0))
        \<and> (\<forall>t\<in>set ts. t < t0 + 300000) \<longrightarrow>
        fst (limiter_run st ip (t0 # ts)) = map (\<lambda>i. i < 15) [0..<Suc (length ts)])
   \<and> (\<not> fst (apiLimiter st ip now) \<longrightarrow>
        fst (post_generate_post st ip now numstr model body) =
          \<lparr>reply = \<lparr>status = 429,
                     payload = ErrorBody (js ''Too many requests from this IP, please try again after 5 minutes.'')\<rparr>,
           prompts = [], error_details = []\<rparr>
        \<and> snd (post_generate_post st ip now numstr model body) = st)
   \<and> ((\<forall>k w. st k = Some w \<longrightarrow> count w \<le> 15) \<longrightarrow>
        (\<forall>k w. snd (apiLimiter st ip now) k = Some w \<longrightarrow> count w \<le> 15))"
proof -
  have a: "windowMs = 300000" by (simp add: windowMs_def)
  have b: "fst (limiter_run st ip (t0 # ts)) = map (\<lambda>i. i < 15) [0..<Suc (length ts)]"
    if "st ip = None \<or> (\<exists>w. st ip = Some w \<and> window_start w + 300000 \<le> t0)"
      "\<forall>t\<in>set ts. t < t0 + 300000"
    using limiter_run_new_window [of st ip t0 ts] that unfolding a max_requests_def by blast
  have c: "fst (post_generate_post st ip now numstr model body) =
          \<lparr>reply = \<lparr>status = 429,
                     payload = ErrorBody (js ''Too many requests from this IP, please try again after 5 minutes.'')\<rparr>,
           prompts = [], error_details = []\<rparr>
        \<and> snd (post_generate_post st ip now numstr model body) = st"
    if "\<not> fst (apiLimiter st ip now)"
    using that
    by (auto simp: post_generate_post_def too_many_requests_def limiter_message_def apiLimiter_def
        split: prod.splits option.splits if_splits)
  have d: "\<forall>k w. snd (apiLimiter st ip now) k = Some w \<longrightarrow> count w \<le> 15"
    if "\<forall>k w. st k = Some w \<longrightarrow> count w \<le> 15"
    using apiLimiter_count_bound [of st ip now] that unfolding max_requests_def by blast
  show ?thesis using a b c d by blast
qed

theorem limiter_fifteen_per_window_witness:
  "fst (limiter_run Map.empty (js ''203.0.113.7'')
         [0, 1000, 2000, 3000, 4000, 5000, 6000, 7000, 8000, 9000, 10000, 11000, 12000, 13000,
          14000, 15000])
     = [True, True, True, True, True, True, True, True, True, True, True, True, True, True,
        True, False]
   \<and> \<not> fst (apiLimiter (\<lambda>k. Some \<lparr>count = 15, window_start = 0\<rparr>) (js ''203.0.113.7'') 16000)
   \<and> fst (post_generate_post (\<lambda>k. Some \<lparr>count = 15, window_start = 0\<rparr>) (js ''203.0.113.7'')
            16000 (\<lambda>w. []) (\<lambda>p. Throws (JsError None))
            \<lparr>topic = Some (JString (js ''history of AI'')), style = None\<rparr>) =
       \<lparr>reply = \<lparr>status = 429,
                  payload = ErrorBody (js ''Too many requests from this IP, please try again after 5 minutes.'')\<rparr>,
        prompts = [], error_details = []\<rparr>"
proof -
  let ?ts = "[1000, 2000, 3000, 4000, 5000, 6000, 7000, 8000, 9000, 10000, 11000, 12000, 13000,
          14000, 15000] :: nat list"
  let ?full = "\<lambda>k :: jsstring. Some \<lparr>count = 15, window_start = 0\<rparr>"
  note thm1 = limiter_fifteen_per_window
    [of Map.empty "js ''203.0.113.7''" 0 ?ts 0 "\<lambda>w. []" "\<lambda>p. Throws (JsError None)"
        "\<lparr>topic = None, style = None\<rparr>"]
  note thm2 = limiter_fifteen_per_window
    [of ?full "js ''203.0.113.7''" 0 "[]" 16000 "\<lambda>w. []" "\<lambda>p. Throws (JsError None)"
        "\<lparr>topic = Some (JString (js ''history of AI'')), style = None\<rparr>"]
  have in_window: "\<forall>t\<in>set ?ts. t < 0 + 300000"
    by simp
  have "fst (limiter_run Map.empty (js ''203.0.113.7'') (0 # ?ts)) =
      map (\<lambda>i. i < 15) [0..<Suc (length ?ts)]"
    using thm1 in_window by simp
  then have run: "fst (limiter_run Map.empty (js ''203.0.113.7'') (0 # ?ts)) =
      [True, True, True, True, True, True, True, True, True, True, True, True, True, True,
        True, False]"
    by (simp add: upt_rec)
  have rejected: "\<not> fst (apiLimiter ?full (js ''203.0.113.7'') 16000)"
    by (simp add: apiLimiter_def windowMs_def max_requests_def)
  with thm2 have "fst (post_generate_post ?full (js ''203.0.113.7'')
            16000 (\<lambda>w. []) (\<lambda>p. Throws (JsError None))
            \<lparr>topic = Some (JString (js ''history of AI'')), style = None\<rparr>) =
       \<lparr>reply = \<lparr>status = 429,
                  payload = ErrorBody (js ''Too many requests from this IP, please try again after 5 minutes.'')\<rparr>,
        prompts = [], error_details = []\<rparr>"
    by blast
  with run rejected show ?thesis by blast
qed

text \<open>
  C3. The claim: POST /generate-post returns exactly one of 200 on success, 400 for a
  missing topic, 429 with the quota message when the message of the upstream error
  matches, and 500 otherwise. The route has the rate limiter in front of its handler: the
  sixteenth request of a client within five minutes, with a topic and a working model, is
  answered 429 with the message of the limiter, which is not the quota message, and no
  error of the model is behind it.
\<close>

theorem limited_post_counterexample:
  "fst (post_generate_post
       (snd (limiter_run Map.empty (js ''203.0.113.7'')
         [0, 1000, 2000, 3000, 4000, 5000, 6000, 7000, 8000, 9000, 10000, 11000, 12000, 13000,
          14000]))
       (js ''203.0.113.7'') 15000 (\<lambda>w. [])
       (\<lambda>p. Resolves (Some \<lparr>response_text = Some (Inr p), promptFeedback = None\<rparr>))
       \<lparr>topic = Some (JString (js ''history of AI'')), style = Some (JString (js ''Simple''))\<rparr>) =
     \<lparr>reply = \<lparr>status = 429,
                payload = ErrorBody (js ''Too many requests from this IP, please try again after 5 minutes.'')\<rparr>,
      prompts = [], error_details = []\<rparr>
   \<and> js ''Too many requests from this IP, please try again after 5 minutes.'' \<noteq>
       js ''The daily API quota has been reached. Please try again tomorrow.''"
  by (simp add: post_generate_post_def apiLimiter_def windowMs_def max_requests_def
      too_many_requests_def limiter_message_def js_def)

text \<open>
  C3, amended. POST /generate-post answers a request the rate limiter rejects with 429
  and the payload of the limiter, and no prompt goes to the model. A request the limiter
  admits gets exactly one of four responses: 200 with the parsed text of the model's answer
  to the prompt; 400 with the error \<open>Topic is required\<close> when the topic is falsy, and
  then no prompt goes to the model; 429 with the fixed quota message when the caught error
  has a message that includes \<open>429\<close> or \<open>quota\<close>; 500 with the fixed generic message
  for every other caught error. The error payloads are constants, so nothing of the caught
  error reaches the caller.
\<close>

theorem post_generate_post_outcomes:
  assumes "post_generate_post st ip now numstr model body = (h, st')"
  shows
  "(\<not> fst (apiLimiter st ip now)
      \<and> h = \<lparr>reply = \<lparr>status = 429,
                        payload = ErrorBody (js ''Too many requests from this IP, please try again after 5 minutes.'')\<rparr>,
              prompts = [], error_details = []\<rparr>)
   \<or> (fst (apiLimiter st ip now)
       \<and> (\<exists>result. reply h = \<lparr>status = 200, payload = PostBody result\<rparr>
            \<and> (\<exists>t p r answer. topic body = Some t \<and> truthy (Some t)
                  \<and> prompt_for numstr t (style body) = Inr p \<and> prompts h = [p]
                  \<and> model p = Resolves (Some r) \<and> response_text r = Some (Inr answer)
                  \<and> result = parse_response answer)))
   \<or> (fst (apiLimiter st ip now)
       \<and> reply h = \<lparr>status = 400, payload = ErrorBody (js ''Topic is required'')\<rparr>
       \<and> \<not> truthy (topic body) \<and> prompts h = [])
   \<or> (fst (apiLimiter st ip now)
       \<and> reply h =
           \<lparr>status = 429,
            payload = ErrorBody (js ''The daily API quota has been reached. Please try again tomorrow.'')\<rparr>
       \<and> (\<exists>t e sent m. topic body = Some t \<and> truthy (Some t)
             \<and> generate numstr model t (style body) = (Inl e, sent)
             \<and> message e = Some m
             \<and> (str_includes m (js ''429'') \<or> str_includes m (js ''quota''))))
   \<or> (fst (apiLimiter st ip now)
       \<and> reply h =
           \<lparr>status = 500,
            payload = ErrorBody (js ''An unexpected server error occurred. Please check the server logs.'')\<rparr>
       \<and> (\<exists>t e sent. topic body = Some t \<and> truthy (Some t)
             \<and> generate numstr model t (style body) = (Inl e, sent)
             \<and> \<not> (\<exists>m. message e = Some m
                     \<and> (str_includes m (js ''429'') \<or> str_includes m (js ''quota'')))))"
proof (cases "fst (apiLimiter st ip now)")
  case False
  with assms post_generate_post_rejected [of st ip now numstr model body] show ?thesis
    by simp
next
  case admitted: True
  with assms post_generate_post_admitted [of st ip now numstr model body]
  have h: "h = generate_post numstr model body"
    by simp
  show ?thesis
  proof (cases "truthy (topic body)")
    case False
    with admitted show ?thesis
      unfolding h by (simp add: generate_post_falsy)
  next
    case True
    then obtain t where t: "topic body = Some t" "truthy (Some t)"
      by (cases "topic body") auto
    obtain res sent where g: "generate numstr model t (style body) = (res, sent)"
      by (cases "generate numstr model t (style body)")
    show ?thesis
    proof (cases res)
      case (Inr result)
      with g obtain p r answer where
        "prompt_for numstr t (style body) = Inr p" "model p = Resolves (Some r)"
        "response_text r = Some (Inr answer)" "result = parse_response answer" "sent = [p]"
        using generate_Inr_iff [of numstr model t "style body" result sent] by blast
      moreover have "h = \<lparr>reply = \<lparr>status = 200, payload = PostBody result\<rparr>, prompts = sent,
          error_details = []\<rparr>"
        unfolding h using t g Inr by (simp add: generate_post_ok)
      ultimately show ?thesis
        using admitted t by auto
    next
      case (Inl e)
      have he: "h = \<lparr>reply = error_response e, prompts = sent, error_details = [error_detail e]\<rparr>"
        unfolding h using t g Inl by (simp add: generate_post_error)
      show ?thesis
      proof (cases "quota_error e")
        case True
        then obtain m where "message e = Some m"
          "str_includes m (js ''429'') \<or> str_includes m (js ''quota'')"
          using quota_error_iff by blast
        with admitted t g Inl True show ?thesis
          unfolding he by (auto simp: error_response_cases)
      next
        case q: False
        then have "\<not> (\<exists>m. message e = Some m
            \<and> (str_includes m (js ''429'') \<or> str_includes m (js ''quota'')))"
          using quota_error_iff by blast
        with admitted t g Inl q show ?thesis
          unfolding he by (auto simp: error_response_cases)
      qed
    qed
  qed
qed

theorem post_generate_post_outcomes_witness:
  "reply (fst (post_generate_post Map.empty (js ''203.0.113.7'') 0 (\<lambda>w. [])
       (\<lambda>p. Throws (JsError (Some (js ''[429 Too Many Requests] Resource exhausted''))))
       \<lparr>topic = Some (JString (js ''history of AI'')), style = Some (JString (js ''Simple''))\<rparr>)) =
     \<lparr>status = 429,
      payload = ErrorBody (js ''The daily API quota has been reached. Please try again tomorrow.'')\<rparr>
   \<and> reply (fst (post_generate_post Map.empty (js ''203.0.113.7'') 0 (\<lambda>w. [])
       (\<lambda>p. Throws (JsError (Some (js ''fetch failed''))))
       \<lparr>topic = Some (JString (js ''history of AI'')), style = Some (JString (js ''Simple''))\<rparr>)) =
     \<lparr>status = 500,
      payload = ErrorBody (js ''An unexpected server error occurred. Please check the server logs.'')\<rparr>"
proof -
  let ?ip = "js ''203.0.113.7''"
  let ?quota = "\<lambda>p :: jsstring. Throws (JsError (Some (js ''[429 Too Many Requests] Resource exhausted'')))"
  let ?other = "\<lambda>p :: jsstring. Throws (JsError (Some (js ''fetch failed'')))"
  let ?body = "\<lparr>topic = Some (JString (js ''history of AI'')), style = Some (JString (js ''Simple''))\<rparr>"
  have adm: "fst (apiLimiter Map.empty ?ip 0)"
    by (simp add: apiLimiter_def)
  have t: "truthy (topic ?body)"
    by (simp add: js_def)
  have q1: "str_includes (js ''[429 Too Many Requests] Resource exhausted'') (js ''429'')"
    by (simp add: js_def startsWith_def)
  have q2: "\<not> str_includes (js ''fetch failed'') (js ''429'')"
    "\<not> str_includes (js ''fetch failed'') (js ''quota'')"
    by (simp_all add: js_def startsWith_def)
  have g1: "generate (\<lambda>w. []) ?quota (JString (js ''history of AI'')) (style ?body) =
      (Inl (JsError (Some (js ''[429 Too Many Requests] Resource exhausted''))),
       [getPromptForStyle (js ''history of AI'') (style_case (style ?body))])"
    by (rule generate_throws) (simp_all add: prompt_for_string)
  have g2: "generate (\<lambda>w. []) ?other (JString (js ''history of AI'')) (style ?body) =
      (Inl (JsError (Some (js ''fetch failed''))),
       [getPromptForStyle (js ''history of AI'') (style_case (style ?body))])"
    by (rule generate_throws) (simp_all add: prompt_for_string)
  have one: "reply (fst (post_generate_post Map.empty ?ip 0 (\<lambda>w. []) ?quota ?body)) =
     \<lparr>status = 429,
      payload = ErrorBody (js ''The daily API quota has been reached. Please try again tomorrow.'')\<rparr>"
    using post_generate_post_outcomes
      [of Map.empty ?ip 0 "\<lambda>w. []" ?quota ?body
        "fst (post_generate_post Map.empty ?ip 0 (\<lambda>w. []) ?quota ?body)"
        "snd (post_generate_post Map.empty ?ip 0 (\<lambda>w. []) ?quota ?body)"]
      adm t g1 q1
    by (auto simp: generate_Inr_iff)
  have two: "reply (fst (post_generate_post Map.empty ?ip 0 (\<lambda>w. []) ?other ?body)) =
     \<lparr>status = 500,
      payload = ErrorBody (js ''An unexpected server error occurred. Please check the server logs.'')\<rparr>"
    using post_generate_post_outcomes
      [of Map.empty ?ip 0 "\<lambda>w. []" ?other ?body
        "fst (post_generate_post Map.empty ?ip 0 (\<lambda>w. []) ?other ?body)"
        "snd (post_generate_post Map.empty ?ip 0 (\<lambda>w. []) ?other ?body)"]
      adm t g2 q2
    by (auto simp: generate_Inr_iff)
  from one two show ?thesis by blast
qed

text \<open>
  C4. The claim: a response of the model with an empty text is a failure, never a success
  with an empty \<open>responseText\<close>. The handler tests \<open>!response.text\<close>, the method, and not
  what \<open>response.text()\<close> returns: when the method returns the empty string the handler
  answers 200 with an empty \<open>responseText\<close> and no search queries, and prints no error.
  (An absent response, or one without the method, does fail, with either the safety-filter
  message or the empty-response message: \<open>generate_no_response\<close>, \<open>generate_no_text\<close>.)
\<close>

theorem empty_text_is_success:
  "generate_post numstr
     (\<lambda>p. Resolves (Some \<lparr>response_text = Some (Inr []), promptFeedback = None\<rparr>))
     \<lparr>topic = Some (JString (js ''history of AI'')), style = Some (JString (js ''Simple''))\<rparr> =
   \<lparr>reply = \<lparr>status = 200, payload = PostBody \<lparr>responseText = [], searchQueries = []\<rparr>\<rparr>,
    prompts = [getPromptForStyle (js ''history of AI'') (Some (js ''Simple''))],
    error_details = []\<rparr>"
  by (simp add: generate_post_def generate_def prompt_for_def style_case_def generateContent_def
      parse_response_def str_split_def str_trim_def startsWith_def marker_def js_def)

text \<open>
  C6. When the query of a /generate-suggestions request is absent (or falsy otherwise),
  or is a string shorter than three code units once trimmed, the handler answers 200 with
  an empty list of suggestions and no prompt goes to the model.
\<close>

theorem short_query_no_call:
  "query body = None \<or> \<not> truthy (query body)
     \<or> (\<exists>q. query body = Some (JString q) \<and> length (str_trim q) < 3) \<Longrightarrow>
   generate_suggestions model body =
     Answered \<lparr>reply = \<lparr>status = 200, payload = SuggestionsBody []\<rparr>, prompts = []\<rparr>"
  by (cases "query body") (auto simp: generate_suggestions_def)

theorem short_query_no_call_witness:
  "length (str_trim (js ''  ai  '')) < 3
   \<and> generate_suggestions
       (\<lambda>p. Resolves (Some \<lparr>response_text = Some (Inr (js ''ai news'')), promptFeedback = None\<rparr>))
       \<lparr>query = Some (JString (js ''  ai  ''))\<rparr> =
     Answered \<lparr>reply = \<lparr>status = 200, payload = SuggestionsBody []\<rparr>, prompts = []\<rparr>"
proof -
  have short: "length (str_trim (js ''  ai  '')) < 3"
    by (simp add: str_trim_def is_ws_def js_def)
  then have "query \<lparr>query = Some (JString (js ''  ai  ''))\<rparr> = None
      \<or> \<not> truthy (query \<lparr>query = Some (JString (js ''  ai  ''))\<rparr>)
      \<or> (\<exists>q. query \<lparr>query = Some (JString (js ''  ai  ''))\<rparr> = Some (JString q)
            \<and> length (str_trim q) < 3)"
    by simp
  from short_query_no_call [OF this] short show ?thesis by blast
qed

text \<open>
  C7. The claim: POST /generate-suggestions never returns an error to the caller. The
  route has the rate limiter in front of its handler: the sixteenth request of a client
  within five minutes is answered 429 with an error payload. And the guard calls
  \<open>query.trim()\<close> before the \<open>try\<close>: for a query that is a number the handler throws
  a TypeError that it does not catch.
\<close>

theorem suggestions_error_counterexample:
  "fst (post_generate_suggestions
       (snd (limiter_run Map.empty (js ''203.0.113.7'')
         [0, 1000, 2000, 3000, 4000, 5000, 6000, 7000, 8000, 9000, 10000, 11000, 12000, 13000,
          14000]))
       (js ''203.0.113.7'') 15000
       (\<lambda>p. Resolves (Some \<lparr>response_text = Some (Inr (js ''history of AI'')), promptFeedback = None\<rparr>))
       \<lparr>query = Some (JString (js ''history''))\<rparr>) =
     Answered
       \<lparr>reply = \<lparr>status = 429,
                 payload = ErrorBody (js ''Too many requests from this IP, please try again after 5 minutes.'')\<rparr>,
        prompts = []\<rparr>
   \<and> fst (post_generate_suggestions Map.empty (js ''203.0.113.7'') 0
       (\<lambda>p. Resolves (Some \<lparr>response_text = Some (Inr (js ''history of AI'')), promptFeedback = None\<rparr>))
       \<lparr>query = Some (JNumber 0x40C81C8000000000)\<rparr>) =
     Threw (JsError (Some (js ''query.trim is not a function'')))"
  by (simp add: post_generate_suggestions_def apiLimiter_def windowMs_def max_requests_def
      too_many_requests_def limiter_message_def generate_suggestions_def is_zero_def is_nan_def)

text \<open>
  C7, amended. For a request that the rate limiter admits and whose query is absent,
  falsy or a string, POST /generate-suggestions answers 200: with the lines of the model's
  answer to the prompt that are not empty or white space only, in their order, when the
  query has three code units or more once trimmed and the model returns a text; with the
  empty list otherwise, in particular on every failure of the model. A request the rate
  limiter rejects gets the limiter's 429 and its error payload.
\<close>

theorem suggestions_route_responses:
  assumes "post_generate_suggestions st ip now model body = (out, st')"
  shows
  "(fst (apiLimiter st ip now)
      \<and> (\<not> truthy (query body) \<or> (\<exists>q. query body = Some (JString q))) \<longrightarrow>
      (\<exists>h. out = Answered h \<and> status (reply h) = 200
         \<and> (\<forall>q r answer. query body = Some (JString q) \<and> 3 \<le> length (str_trim q)
               \<and> model (suggestion_prompt q) = Resolves (Some r)
               \<and> response_text r = Some (Inr answer) \<longrightarrow>
               payload (reply h) =
                 SuggestionsBody (filter (\<lambda>s. str_trim s \<noteq> []) (str_split answer newline))
               \<and> prompts h = [suggestion_prompt q])
         \<and> (\<not> (\<exists>q r answer. query body = Some (JString q) \<and> 3 \<le> length (str_trim q)
               \<and> model (suggestion_prompt q) = Resolves (Some r)
               \<and> response_text r = Some (Inr answer)) \<longrightarrow>
               payload (reply h) = SuggestionsBody [])))
   \<and> (\<not> fst (apiLimiter st ip now) \<longrightarrow>
        out = Answered
          \<lparr>reply = \<lparr>status = 429,
                     payload = ErrorBody (js ''Too many requests from this IP, please try again after 5 minutes.'')\<rparr>,
           prompts = []\<rparr>)"
proof (cases "fst (apiLimiter st ip now)")
  case False
  with assms post_generate_suggestions_rejected [of st ip now model body] show ?thesis
    by simp
next
  case admitted: True
  with assms post_generate_suggestions_admitted [of st ip now model body]
  have out: "out = generate_suggestions model body"
    by simp
  have "\<exists>h. out = Answered h \<and> status (reply h) = 200
         \<and> (\<forall>q r answer. query body = Some (JString q) \<and> 3 \<le> length (str_trim q)
               \<and> model (suggestion_prompt q) = Resolves (Some r)
               \<and> response_text r = Some (Inr answer) \<longrightarrow>
               payload (reply h) =
                 SuggestionsBody (filter (\<lambda>s. str_trim s \<noteq> []) (str_split answer newline))
               \<and> prompts h = [suggestion_prompt q])
         \<and> (\<not> (\<exists>q r answer. query body = Some (JString q) \<and> 3 \<le> length (str_trim q)
               \<and> model (suggestion_prompt q) = Resolves (Some r)
               \<and> response_text r = Some (Inr answer)) \<longrightarrow>
               payload (reply h) = SuggestionsBody [])"
    if ok: "\<not> truthy (query body) \<or> (\<exists>q. query body = Some (JString q))"
  proof (cases "\<exists>q. query body = Some (JString q)")
    case False
    with ok have "\<not> truthy (query body)" by blast
    then have "out = Answered \<lparr>reply = \<lparr>status = 200, payload = SuggestionsBody []\<rparr>, prompts = []\<rparr>"
      unfolding out by (rule generate_suggestions_falsy)
    with False show ?thesis by auto
  next
    case True
    then obtain q where q: "query body = Some (JString q)" by blast
    note g = generate_suggestions_string [OF q, of model]
    show ?thesis
    proof (cases "length (str_trim q) < 3")
      case True
      with g q show ?thesis unfolding out by auto
    next
      case long: False
      show ?thesis
      proof (cases "fst (suggest model q)")
        case None
        then have "\<not> (\<exists>r answer. model (suggestion_prompt q) = Resolves (Some r)
            \<and> response_text r = Some (Inr answer))"
          using suggest_Some_iff [of model q] by auto
        with g q long None show ?thesis unfolding out by auto
      next
        case (Some xs)
        then obtain r answer where ra: "model (suggestion_prompt q) = Resolves (Some r)"
          "response_text r = Some (Inr answer)"
          "xs = filter (\<lambda>s. str_trim s \<noteq> []) (str_split answer newline)"
          using suggest_Some_iff [of model q xs] by blast
        with g q long Some show ?thesis unfolding out by auto
      qed
    qed
  qed
  with admitted show ?thesis by blast
qed

theorem suggestions_route_responses_witness:
  "fst (apiLimiter Map.empty (js ''203.0.113.7'') 0)
   \<and> fst (post_generate_suggestions Map.empty (js ''203.0.113.7'') 0
        (\<lambda>p. if p = suggestion_prompt (js ''ai n'')
              then Resolves (Some \<lparr>response_text = Some (Inr (js ''ai news'' @ newline # newline # js '' ai art '' @ newline # js ''  '')),
                                    promptFeedback = None\<rparr>)
              else Throws (JsError (Some (js ''unexpected prompt''))))
        \<lparr>query = Some (JString (js ''ai n''))\<rparr>) =
     Answered \<lparr>reply = \<lparr>status = 200, payload = SuggestionsBody [js ''ai news'', js '' ai art '']\<rparr>,
               prompts = [suggestion_prompt (js ''ai n'')]\<rparr>
   \<and> fst (post_generate_suggestions Map.empty (js ''203.0.113.7'') 0
        (\<lambda>p. Throws (JsError (Some (js ''fetch failed''))))
        \<lparr>query = Some (JString (js ''ai n''))\<rparr>) =
     Answered \<lparr>reply = \<lparr>status = 200, payload = SuggestionsBody []\<rparr>,
               prompts = [suggestion_prompt (js ''ai n'')]\<rparr>"
proof -
  let ?ip = "js ''203.0.113.7''"
  let ?answer = "js ''ai news'' @ newline # newline # js '' ai art '' @ newline # js ''  ''"
  let ?r = "\<lparr>response_text = Some (Inr ?answer), promptFeedback = None\<rparr>"
  let ?ok = "\<lambda>p. if p = suggestion_prompt (js ''ai n'') then Resolves (Some ?r)
              else Throws (JsError (Some (js ''unexpected prompt'')))"
  let ?bad = "\<lambda>p :: jsstring. Throws (JsError (Some (js ''fetch failed'')))"
  let ?body = "\<lparr>query = Some (JString (js ''ai n''))\<rparr>"
  have adm: "fst (apiLimiter Map.empty ?ip 0)"
    by (simp add: apiLimiter_def)
  have len: "3 \<le> length (str_trim (js ''ai n''))"
    by (simp add: str_trim_def is_ws_def js_def)
  have lines: "filter (\<lambda>s. str_trim s \<noteq> []) (str_split ?answer newline) = [js ''ai news'', js '' ai art '']"
    by (simp add: str_split_def str_trim_def is_ws_def js_def newline_def)
  have q: "query ?body = Some (JString (js ''ai n''))"
    by simp
  obtain h where h: "fst (post_generate_suggestions Map.empty ?ip 0 ?ok ?body) = Answered h"
    "payload (reply h) = SuggestionsBody (filter (\<lambda>s. str_trim s \<noteq> []) (str_split ?answer newline))"
    "prompts h = [suggestion_prompt (js ''ai n'')]" "status (reply h) = 200"
    using suggestions_route_responses
      [of Map.empty ?ip 0 ?ok ?body "fst (post_generate_suggestions Map.empty ?ip 0 ?ok ?body)"
        "snd (post_generate_suggestions Map.empty ?ip 0 ?ok ?body)"] adm len q
    by auto
  then have ok: "fst (post_generate_suggestions Map.empty ?ip 0 ?ok ?body) =
      Answered \<lparr>reply = \<lparr>status = 200, payload = SuggestionsBody [js ''ai news'', js '' ai art '']\<rparr>,
               prompts = [suggestion_prompt (js ''ai n'')]\<rparr>"
    unfolding lines by (cases h; cases "reply h") auto
  have bad: "fst (post_generate_suggestions Map.empty ?ip 0 ?bad ?body) =
      Answered \<lparr>reply = \<lparr>status = 200, payload = SuggestionsBody []\<rparr>,
               prompts = [suggestion_prompt (js ''ai n'')]\<rparr>"
    using post_generate_suggestions_admitted [OF adm, of ?bad ?body]
      generate_suggestions_string [OF q, of ?bad] len
    by (simp add: suggest_result)
  from adm ok bad show ?thesis by blast
qed



text \<open>
  C9. The claim: the origin check admits a request if and only if its Origin is in the
  allow-list. A request without an Origin is admitted although no Origin of the list is
  its own.
\<close>

theorem cors_origin_absent_counterexample:
  "cors_origin None = Inr True \<and> None \<notin> set (map Some allowedOrigins)"
  by (simp add: cors_origin_def)

text \<open>
  C9, amended. The origin check admits a request if and only if it has no Origin (or an
  empty one) or its Origin is in the allow-list, and such a request goes on to its route.
  For every other Origin the callback gets the error \<open>Not allowed by CORS\<close> and the
  request is rejected with it before the routes: the rate limiter does not count it, no
  handler runs and no prompt goes to the model.
\<close>

theorem cors_admits:
  "(cors_origin origin = Inr True \<longleftrightarrow>
      origin = None \<or> origin = Some [] \<or> origin \<in> set (map Some allowedOrigins))
   \<and> (origin = None \<or> origin = Some [] \<or> origin \<in> set (map Some allowedOrigins) \<longrightarrow>
        app_generate_post origin st ip now numstr model body =
          (Routed (fst (post_generate_post st ip now numstr model body)),
           snd (post_generate_post st ip now numstr model body))
        \<and> app_generate_suggestions origin st ip now model sbody =
          (Routed (fst (post_generate_suggestions st ip now model sbody)),
           snd (post_generate_suggestions st ip now model sbody)))
   \<and> (\<not> (origin = None \<or> origin = Some [] \<or> origin \<in> set (map Some allowedOrigins)) \<longrightarrow>
        cors_origin origin = Inl (JsError (Some (js ''Not allowed by CORS'')))
        \<and> app_generate_post origin st ip now numstr model body =
            (Refused (JsError (Some (js ''Not allowed by CORS''))), st)
        \<and> app_generate_suggestions origin st ip now model sbody =
            (Refused (JsError (Some (js ''Not allowed by CORS''))), st))"
proof -
  let ?listed = "origin = None \<or> origin = Some [] \<or> origin \<in> set (map Some allowedOrigins)"
  have iff: "cors_origin origin = Inr True \<longleftrightarrow> ?listed"
    by (simp add: cors_origin_cases)
  have routed: "app_generate_post origin st ip now numstr model body =
          (Routed (fst (post_generate_post st ip now numstr model body)),
           snd (post_generate_post st ip now numstr model body))
        \<and> app_generate_suggestions origin st ip now model sbody =
          (Routed (fst (post_generate_suggestions st ip now model sbody)),
           snd (post_generate_suggestions st ip now model sbody))"
    if ?listed
  proof -
    from that iff have "cors_origin origin = Inr True" by blast
    then show ?thesis
      by (simp add: app_generate_post_def app_generate_suggestions_def cors_def
          split: prod.splits)
  qed
  have refused: "cors_origin origin = Inl (JsError (Some (js ''Not allowed by CORS'')))
        \<and> app_generate_post origin st ip now numstr model body =
            (Refused (JsError (Some (js ''Not allowed by CORS''))), st)
        \<and> app_generate_suggestions origin st ip now model sbody =
            (Refused (JsError (Some (js ''Not allowed by CORS''))), st)"
    if "\<not> ?listed"
  proof -
    from that have "cors_origin origin = Inl (JsError (Some (js ''Not allowed by CORS'')))"
      by (simp only: cors_origin_cases if_False)
    then show ?thesis
      by (simp add: app_generate_post_def app_generate_suggestions_def cors_def)
  qed
  from iff routed refused show ?thesis by blast
qed

theorem cors_admits_witness:
  "app_generate_post (Some (js ''https://evil.example'')) Map.empty (js ''203.0.113.7'') 0 (\<lambda>w. [])
       (\<lambda>p. Resolves (Some \<lparr>response_text = Some (Inr p), promptFeedback = None\<rparr>))
       \<lparr>topic = Some (JString (js ''history of AI'')), style = None\<rparr> =
     (Refused (JsError (Some (js ''Not allowed by CORS''))), Map.empty)
   \<and> fst (app_generate_suggestions (Some (js ''http://localhost:5500'')) Map.empty
           (js ''203.0.113.7'') 0 (\<lambda>p. Throws (JsError None)) \<lparr>query = None\<rparr>) =
     Routed (Answered \<lparr>reply = \<lparr>status = 200, payload = SuggestionsBody []\<rparr>, prompts = []\<rparr>)"
proof -
  have evil: "\<not> (Some (js ''https://evil.example'') = None \<or> Some (js ''https://evil.example'') = Some []
      \<or> Some (js ''https://evil.example'') \<in> set (map Some allowedOrigins))"
    by (simp add: allowedOrigins_def js_def)
  have home: "Some (js ''http://localhost:5500'') \<in> set (map Some allowedOrigins)"
    by (simp add: allowedOrigins_def)
  have adm: "fst (apiLimiter Map.empty (js ''203.0.113.7'') 0)"
    by (simp add: apiLimiter_def)
  have one: "app_generate_post (Some (js ''https://evil.example'')) Map.empty (js ''203.0.113.7'') 0 (\<lambda>w. [])
       (\<lambda>p. Resolves (Some \<lparr>response_text = Some (Inr p), promptFeedback = None\<rparr>))
       \<lparr>topic = Some (JString (js ''history of AI'')), style = None\<rparr> =
     (Refused (JsError (Some (js ''Not allowed by CORS''))), Map.empty)"
    using cors_admits [of "Some (js ''https://evil.example'')" Map.empty "js ''203.0.113.7''" 0
        "\<lambda>w. []" "\<lambda>p. Resolves (Some \<lparr>response_text = Some (Inr p), promptFeedback = None\<rparr>)"
        "\<lparr>topic = Some (JString (js ''history of AI'')), style = None\<rparr>"] evil
    by blast
  have "fst (app_generate_suggestions (Some (js ''http://localhost:5500'')) Map.empty
           (js ''203.0.113.7'') 0 (\<lambda>p. Throws (JsError None)) \<lparr>query = None\<rparr>) =
     Routed (fst (post_generate_suggestions Map.empty (js ''203.0.113.7'') 0
        (\<lambda>p. Throws (JsError None)) \<lparr>query = None\<rparr>))"
    using cors_admits [of "Some (js ''http://localhost:5500'')" Map.empty "js ''203.0.113.7''" 0
        _ "\<lambda>p. Throws (JsError None)" _ "\<lparr>query = None\<rparr>"] home
    by simp
  then have two: "fst (app_generate_suggestions (Some (js ''http://localhost:5500'')) Map.empty
           (js ''203.0.113.7'') 0 (\<lambda>p. Throws (JsError None)) \<lparr>query = None\<rparr>) =
     Routed (Answered \<lparr>reply = \<lparr>status = 200, payload = SuggestionsBody []\<rparr>, prompts = []\<rparr>)"
    using post_generate_suggestions_admitted [OF adm, of "\<lambda>p. Throws (JsError None)" "\<lparr>query = None\<rparr>"]
    by (simp add: generate_suggestions_falsy)
  from one two show ?thesis by blast
qed

text \<open>
  C10. The claim: only an absent or empty topic gets the 400 of POST /generate-post. The
  guard is \<open>!topic\<close>: a topic that is \<open>null\<close>, \<open>false\<close> or the number 0 gets it
  too.
\<close>

theorem falsy_topic_counterexample:
  "reply (fst (post_generate_post Map.empty (js ''203.0.113.7'') 0 (\<lambda>w. [])
       (\<lambda>p. Resolves (Some \<lparr>response_text = Some (Inr p), promptFeedback = None\<rparr>))
       \<lparr>topic = Some JNull, style = None\<rparr>)) =
     \<lparr>status = 400, payload = ErrorBody (js ''Topic is required'')\<rparr>
   \<and> reply (fst (post_generate_post Map.empty (js ''203.0.113.7'') 0 (\<lambda>w. [])
       (\<lambda>p. Resolves (Some \<lparr>response_text = Some (Inr p), promptFeedback = None\<rparr>))
       \<lparr>topic = Some (JBool False), style = None\<rparr>)) =
     \<lparr>status = 400, payload = ErrorBody (js ''Topic is required'')\<rparr>
   \<and> reply (fst (post_generate_post Map.empty (js ''203.0.113.7'') 0 (\<lambda>w. [])
       (\<lambda>p. Resolves (Some \<lparr>response_text = Some (Inr p), promptFeedback = None\<rparr>))
       \<lparr>topic = Some (JNumber 0), style = None\<rparr>)) =
     \<lparr>status = 400, payload = ErrorBody (js ''Topic is required'')\<rparr>"
  by (simp add: post_generate_post_def apiLimiter_def generate_post_def is_zero_def)

text \<open>
  C10, amended. A request to POST /generate-post that the rate limiter admits is answered
  400 exactly when its topic is falsy: absent, \<open>null\<close>, \<open>false\<close>, a zero or NaN, or the
  empty string. Every other string, one made of white space only included, passes the
  guard: it is put into the prompt verbatim, that prompt and no other goes to the model,
  and the reply is made of what the model does with it.
\<close>

theorem topic_guard_only_falsy:
  assumes "post_generate_post st ip now numstr model body = (h, st')"
  shows
  "(status (reply h) = 400 \<longleftrightarrow> fst (apiLimiter st ip now) \<and> \<not> truthy (topic body))
   \<and> (\<not> truthy (topic body) \<longleftrightarrow>
        topic body \<in> {None, Some JNull, Some (JBool False), Some (JString [])}
        \<or> (\<exists>w. topic body = Some (JNumber w) \<and> (is_zero w \<or> is_nan w)))
   \<and> (\<forall>t. fst (apiLimiter st ip now) \<and> topic body = Some (JString t) \<and> t \<noteq> [] \<longrightarrow>
         prompts h = [getPromptForStyle t (style_case (style body))]
         \<and> str_includes (getPromptForStyle t (style_case (style body))) t
         \<and> (\<forall>r answer. model (getPromptForStyle t (style_case (style body))) = Resolves (Some r)
               \<and> response_text r = Some (Inr answer) \<longrightarrow>
               reply h = \<lparr>status = 200, payload = PostBody (parse_response answer)\<rparr>)
         \<and> (\<forall>e. model (getPromptForStyle t (style_case (style body))) = Throws e \<longrightarrow>
               reply h = error_response e))"
proof -
  have a: "status (reply h) = 400 \<longleftrightarrow> fst (apiLimiter st ip now) \<and> \<not> truthy (topic body)"
  proof (cases "fst (apiLimiter st ip now)")
    case True
    with assms post_generate_post_admitted [of st ip now numstr model body]
    have "h = generate_post numstr model body" by simp
    with True show ?thesis by (simp add: generate_post_400_iff)
  next
    case False
    with assms post_generate_post_rejected [of st ip now numstr model body] show ?thesis
      by auto
  qed
  have c: "prompts h = [getPromptForStyle t (style_case (style body))]
         \<and> str_includes (getPromptForStyle t (style_case (style body))) t
         \<and> (\<forall>r answer. model (getPromptForStyle t (style_case (style body))) = Resolves (Some r)
               \<and> response_text r = Some (Inr answer) \<longrightarrow>
               reply h = \<lparr>status = 200, payload = PostBody (parse_response answer)\<rparr>)
         \<and> (\<forall>e. model (getPromptForStyle t (style_case (style body))) = Throws e \<longrightarrow>
               reply h = error_response e)"
    if adm: "fst (apiLimiter st ip now)" and t: "topic body = Some (JString t)" "t \<noteq> []" for t
  proof -
    let ?p = "getPromptForStyle t (style_case (style body))"
    from adm assms post_generate_post_admitted [of st ip now numstr model body]
    have h: "h = generate_post numstr model body" by simp
    have tr: "truthy (Some (JString t))" using t(2) by simp
    obtain res sent where g: "generate numstr model (JString t) (style body) = (res, sent)"
      by (cases "generate numstr model (JString t) (style body)")
    have sent: "sent = [?p]"
      using generate_sent [of numstr model "JString t" "style body"] g
      by (simp add: prompt_for_string)
    have pr: "prompts h = [?p]"
      unfolding h using t(1) tr g sent
      by (cases res) (simp_all add: generate_post_error generate_post_ok)
    have ok: "reply h = \<lparr>status = 200, payload = PostBody (parse_response answer)\<rparr>"
      if "model ?p = Resolves (Some r)" "response_text r = Some (Inr answer)" for r answer
    proof -
      have "generate numstr model (JString t) (style body) = (Inr (parse_response answer), [?p])"
        using that generate_Inr_iff [of numstr model "JString t" "style body"
            "parse_response answer" "[?p]"]
        by (simp add: prompt_for_string)
      then show ?thesis
        unfolding h using t(1) tr by (simp add: generate_post_ok)
    qed
    have err: "reply h = error_response e" if "model ?p = Throws e" for e
    proof -
      have "generate numstr model (JString t) (style body) = (Inl e, [?p])"
        using that by (intro generate_throws) (simp_all add: prompt_for_string)
      then show ?thesis
        unfolding h using t(1) tr by (simp add: generate_post_error)
    qed
    from pr ok err prompt_includes_topic [of t "style_case (style body)"] show ?thesis
      by blast
  qed
  from a c falsy_values [of "topic body"] show ?thesis by blast
qed

theorem topic_guard_only_falsy_witness:
  "str_trim (js '' '') = []
   \<and> fst (post_generate_post Map.empty (js ''203.0.113.7'') 0 (\<lambda>w. [])
       (\<lambda>p. Resolves (Some \<lparr>response_text = Some (Inr p), promptFeedback = None\<rparr>))
       \<lparr>topic = Some (JString (js '' '')), style = None\<rparr>) =
     \<lparr>reply = \<lparr>status = 200,
                payload = PostBody (parse_response (getPromptForStyle (js '' '') None))\<rparr>,
      prompts = [getPromptForStyle (js '' '') None], error_details = []\<rparr>"
proof -
  let ?ip = "js ''203.0.113.7''"
  let ?echo = "\<lambda>p. Resolves (Some \<lparr>response_text = Some (Inr p), promptFeedback = None\<rparr>)"
  let ?body = "\<lparr>topic = Some (JString (js '' '')), style = None\<rparr>"
  let ?h = "fst (post_generate_post Map.empty ?ip 0 (\<lambda>w. []) ?echo ?body)"
  have ws: "str_trim (js '' '') = []"
    by (simp add: str_trim_def is_ws_def js_def)
  have ne: "js '' '' \<noteq> []"
    by (simp add: js_def)
  have adm: "fst (apiLimiter Map.empty ?ip 0)"
    by (simp add: apiLimiter_def)
  have sc: "style_case (style ?body) = None"
    by (simp add: style_case_def)
  note fact = topic_guard_only_falsy
    [of Map.empty ?ip 0 "\<lambda>w. []" ?echo ?body ?h
      "snd (post_generate_post Map.empty ?ip 0 (\<lambda>w. []) ?echo ?body)"]
  from fact adm ne sc have "prompts ?h = [getPromptForStyle (js '' '') None]"
    and "reply ?h = \<lparr>status = 200, payload = PostBody (parse_response (getPromptForStyle (js '' '') None))\<rparr>"
    by auto
  moreover have "error_details ?h = []"
    using post_generate_post_admitted [OF adm, of "\<lambda>w. []" ?echo ?body] ne
    by (simp add: generate_post_def generate_def prompt_for_def generateContent_def)
  ultimately have "?h = \<lparr>reply = \<lparr>status = 200,
                payload = PostBody (parse_response (getPromptForStyle (js '' '') None))\<rparr>,
      prompts = [getPromptForStyle (js '' '') None], error_details = []\<rparr>"
    by (cases ?h) simp
  with ws show ?thesis by blast
qed

end
